theory Spec2Isabelle
  imports Main
begin

section \<open>Shared data: errors and service descriptors\<close>

text \<open>
  Go's \<^verbatim>\<open>error\<close> interface is modelled by one datatype; a Go \<^verbatim>\<open>error\<close> value is an
  \<open>error option\<close>, with \<open>None\<close> for \<^verbatim>\<open>nil\<close>. The first six constructors are the
  package-level values that \<^verbatim>\<open>systemctl.go\<close> creates with \<^verbatim>\<open>errors.New\<close> (six distinct
  pointers). The others are the errors the collaborating libraries hand back:
  \<open>DBusError\<close> anything returned by go-systemd's dbus package, \<open>ExitError\<close> an
  \<^verbatim>\<open>*exec.ExitError\<close> (the process ran and ended unsuccessfully, with its exit code),
  \<open>ExecError\<close> any other failure of \<^verbatim>\<open>os/exec\<close> (for instance the binary was not
  found), \<open>PathError\<close> an \<^verbatim>\<open>*os.PathError\<close> around a \<^verbatim>\<open>syscall.Errno\<close>, and
  \<open>ErrBadPattern\<close> the error of \<^verbatim>\<open>filepath.Match\<close>.
\<close>

datatype error =
    ErrorCanceled
  | ErrorTimeout
  | ErrorFailed
  | ErrorDependency
  | ErrorSkipped
  | ErrorUnknown
  | DBusError string
  | ExitError int
  | ExecError string
  | PathError nat
  | ErrBadPattern

record InitService =
  Name :: string
  Running :: bool

section \<open>The D-Bus backend (\<^verbatim>\<open>systemctl.go\<close>)\<close>

subsection \<open>Result taxonomy\<close>

definition ResultDone :: string where "ResultDone = ''done''"
definition ResultCanceled :: string where "ResultCanceled = ''canceled''"
definition ResultTimeout :: string where "ResultTimeout = ''timeout''"
definition ResultFailed :: string where "ResultFailed = ''failed''"
definition ResultDependency :: string where "ResultDependency = ''dependency''"
definition ResultSkipped :: string where "ResultSkipped = ''skipped''"

text \<open>\<^verbatim>\<open>ErrorMap\<close> is a \<^verbatim>\<open>map[string]error\<close>: a key that is present may hold \<^verbatim>\<open>nil\<close>.\<close>

definition ErrorMap :: "string \<rightharpoonup> error option" where
  "ErrorMap = map_of
     [(ResultDone, None),
      (ResultCanceled, Some ErrorCanceled),
      (ResultTimeout, Some ErrorTimeout),
      (ResultFailed, Some ErrorFailed),
      (ResultDependency, Some ErrorDependency),
      (ResultSkipped, Some ErrorSkipped)]"

subsection \<open>The daemon, as seen through go-systemd\<close>

text \<open>
  The value inside a \<^verbatim>\<open>dbus.Variant\<close> is an \<^verbatim>\<open>interface{}\<close>; comparing it with a string
  constant is true exactly when it holds a string equal to the constant.
\<close>

datatype variant = VString string | VBool bool | VUint nat

record UnitFile =
  Path :: string
  Type :: string

text \<open>Every call a backend function makes on the library is recorded, in order.\<close>

datatype call =
    Connect
  | Close
  | ListUnitFiles
  | ListUnitFilesByPatterns "string list" "string list"
  | GetUnitProperty string string
  | GetUnitProperties string
  | EnableUnitFiles "string list" bool bool
  | DisableUnitFiles "string list" bool
  | StartUnit string string
  | StopUnit string string

text \<open>
  The daemon is a parameter: one answer function per library call, each given the calls
  made so far, so that an answer may depend on everything that happened before. A call
  that returns \<^verbatim>\<open>(value, err)\<close> answers \<open>Inl err\<close> or \<open>Inr value\<close>. For
  \<^verbatim>\<open>StartUnitContext\<close> and \<^verbatim>\<open>StopUnitContext\<close> the value is what the completion
  channel later delivers: \<open>Some result\<close>, or \<open>None\<close> when nothing is ever sent on it.
\<close>

record systemd =
  NewSystemdConnectionContext :: "call list \<Rightarrow> error option"
  ListUnitFilesContext :: "call list \<Rightarrow> error + UnitFile list"
  ListUnitFilesByPatternsContext :: "call list \<Rightarrow> string list \<Rightarrow> string list \<Rightarrow> error + UnitFile list"
  GetUnitPropertyContext :: "call list \<Rightarrow> string \<Rightarrow> string \<Rightarrow> error + variant"
  GetUnitPropertiesContext :: "call list \<Rightarrow> string \<Rightarrow> error + (string \<rightharpoonup> variant)"
  EnableUnitFilesContext :: "call list \<Rightarrow> string list \<Rightarrow> bool \<Rightarrow> bool \<Rightarrow> error option"
  DisableUnitFilesContext :: "call list \<Rightarrow> string list \<Rightarrow> bool \<Rightarrow> error option"
  StartUnitContext :: "call list \<Rightarrow> string \<Rightarrow> string \<Rightarrow> error + string option"
  StopUnitContext :: "call list \<Rightarrow> string \<Rightarrow> string \<Rightarrow> error + string option"

text \<open>
  A backend function takes the calls made so far and returns its result with the calls
  made by the time it is left. \<^verbatim>\<open>result := <-ch\<close> blocks until a value arrives, so a
  function that waits on the channel either returns or blocks for ever.
\<close>

datatype 'a completion = Returns 'a | Blocks

text \<open>
  \<^verbatim>\<open>defer conn.Close()\<close> of a caller whose last statement is
  \<^verbatim>\<open>return s.StartService(name)\<close>: the connection is closed once the callee has returned.
\<close>

fun deferred_Close :: "'a completion \<times> call list \<Rightarrow> 'a completion \<times> call list" where
  "deferred_Close (Returns r, tr) = (Returns r, tr @ [Close])"
| "deferred_Close (Blocks, tr) = (Blocks, tr)"

subsection \<open>Start and stop\<close>

definition SystemCtl_StartService ::
  "systemd \<Rightarrow> string \<Rightarrow> call list \<Rightarrow> error option completion \<times> call list" where
  "SystemCtl_StartService d name tr =
     (case NewSystemdConnectionContext d tr of
        Some err \<Rightarrow> (Returns (Some err), tr @ [Connect])
      | None \<Rightarrow>
          (let tr1 = tr @ [Connect]; tr2 = tr1 @ [StartUnit name ''replace''] in
           case StartUnitContext d tr1 name ''replace'' of
             Inl err \<Rightarrow> (Returns (Some err), tr2 @ [Close])
           | Inr None \<Rightarrow> (Blocks, tr2)
           | Inr (Some result) \<Rightarrow>
               (if result \<noteq> ResultDone then
                  (case ErrorMap result of
                     None \<Rightarrow> (Returns (Some ErrorUnknown), tr2 @ [Close])
                   | Some err \<Rightarrow> (Returns err, tr2 @ [Close]))
                else (Returns None, tr2 @ [Close]))))"

definition SystemCtl_StopService ::
  "systemd \<Rightarrow> string \<Rightarrow> call list \<Rightarrow> error option completion \<times> call list" where
  "SystemCtl_StopService d name tr =
     (case NewSystemdConnectionContext d tr of
        Some err \<Rightarrow> (Returns (Some err), tr @ [Connect])
      | None \<Rightarrow>
          (let tr1 = tr @ [Connect]; tr2 = tr1 @ [StopUnit name ''replace''] in
           case StopUnitContext d tr1 name ''replace'' of
             Inl err \<Rightarrow> (Returns (Some err), tr2 @ [Close])
           | Inr None \<Rightarrow> (Blocks, tr2)
           | Inr (Some result) \<Rightarrow>
               (if result \<noteq> ResultDone then
                  (case ErrorMap result of
                     None \<Rightarrow> (Returns (Some ErrorUnknown), tr2 @ [Close])
                   | Some err \<Rightarrow> (Returns err, tr2 @ [Close]))
                else (Returns None, tr2 @ [Close]))))"

subsection \<open>Probing, enabling and disabling\<close>

definition SystemCtl_IsServiceRunning ::
  "systemd \<Rightarrow> string \<Rightarrow> call list \<Rightarrow> (bool \<times> error option) \<times> call list" where
  "SystemCtl_IsServiceRunning d name tr =
     (case NewSystemdConnectionContext d tr of
        Some err \<Rightarrow> ((False, Some err), tr @ [Connect])
      | None \<Rightarrow>
          (let tr1 = tr @ [Connect]; tr2 = tr1 @ [GetUnitProperty name ''ActiveState''] in
           case GetUnitPropertyContext d tr1 name ''ActiveState'' of
             Inl err \<Rightarrow> ((False, Some err), tr2 @ [Close])
           | Inr property \<Rightarrow> ((property = VString ''active'', None), tr2 @ [Close])))"

definition SystemCtl_EnableService ::
  "systemd \<Rightarrow> string \<Rightarrow> call list \<Rightarrow> error option completion \<times> call list" where
  "SystemCtl_EnableService d name tr =
     (case NewSystemdConnectionContext d tr of
        Some err \<Rightarrow> (Returns (Some err), tr @ [Connect])
      | None \<Rightarrow>
          (let tr1 = tr @ [Connect]; tr2 = tr1 @ [EnableUnitFiles [name] False True] in
           case EnableUnitFilesContext d tr1 [name] False True of
             Some err \<Rightarrow> (Returns (Some err), tr2 @ [Close])
           | None \<Rightarrow>
               (let tr3 = tr2 @ [GetUnitProperty name ''ActiveState''] in
                case GetUnitPropertyContext d tr2 name ''ActiveState'' of
                  Inl err \<Rightarrow> (Returns (Some err), tr3 @ [Close])
                | Inr property \<Rightarrow>
                    (if property \<noteq> VString ''active''
                     then deferred_Close (SystemCtl_StartService d name tr3)
                     else (Returns None, tr3 @ [Close])))))"

text \<open>
  \<^verbatim>\<open>properties\<close> is a \<^verbatim>\<open>map[string]interface{}\<close>: a missing key reads as the \<^verbatim>\<open>nil\<close>
  interface, which differs from every string.
\<close>

definition SystemCtl_DisableService ::
  "systemd \<Rightarrow> string \<Rightarrow> call list \<Rightarrow> error option completion \<times> call list" where
  "SystemCtl_DisableService d name tr =
     (case NewSystemdConnectionContext d tr of
        Some err \<Rightarrow> (Returns (Some err), tr @ [Connect])
      | None \<Rightarrow>
          (let tr1 = tr @ [Connect]; tr2 = tr1 @ [GetUnitProperties name] in
           case GetUnitPropertiesContext d tr1 name of
             Inl err \<Rightarrow> (Returns (Some err), tr2 @ [Close])
           | Inr properties \<Rightarrow>
               (if properties ''ActiveState'' = Some (VString ''active'')
                then deferred_Close (SystemCtl_StopService d name tr2)
                else
                  (let tr3 = tr2 @ [DisableUnitFiles [name] False] in
                   case DisableUnitFilesContext d tr2 [name] False of
                     Some err \<Rightarrow> (Returns (Some err), tr3 @ [Close])
                   | None \<Rightarrow> (Returns None, tr3 @ [Close])))))"

subsection \<open>Listing\<close>

text \<open>
  \<^verbatim>\<open>filepath.Base\<close> on a system whose separator is \<open>/\<close>: the empty path is \<open>.\<close>;
  otherwise trailing separators are dropped and the last element is returned, or \<open>/\<close>
  when nothing but separators was there.
\<close>

definition Base :: "string \<Rightarrow> string" where
  "Base path =
     (if path = [] then ''.''
      else
        (let path = rev (dropWhile (\<lambda>c. c = CHR ''/'') (rev path));
             path = rev (takeWhile (\<lambda>c. c \<noteq> CHR ''/'') (rev path))
         in if path = [] then ''/'' else path))"

text \<open>
  The \<^verbatim>\<open>for _, file := range files\<close> loop of \<^verbatim>\<open>ListServices\<close>: \<open>services\<close> is the slice
  appended to, the second argument the files still to visit.
\<close>

fun SystemCtl_ListServices_loop ::
  "systemd \<Rightarrow> UnitFile list \<Rightarrow> InitService list \<Rightarrow> call list \<Rightarrow> InitService list \<times> call list" where
  "SystemCtl_ListServices_loop d [] services tr = (services, tr)"
| "SystemCtl_ListServices_loop d (file # files) services tr =
     (let serviceName = Base (Path file);
          ((running, err), tr') = SystemCtl_IsServiceRunning d serviceName tr
      in SystemCtl_ListServices_loop d files
           (services @ [\<lparr>Name = serviceName, Running = (err = None \<and> running)\<rparr>]) tr')"

definition SystemCtl_ListServices ::
  "systemd \<Rightarrow> string \<Rightarrow> call list \<Rightarrow> (InitService list \<times> error option) \<times> call list" where
  "SystemCtl_ListServices d pattern tr =
     (case NewSystemdConnectionContext d tr of
        Some err \<Rightarrow> (([], Some err), tr @ [Connect])
      | None \<Rightarrow>
          (let tr1 = tr @ [Connect] in
           if pattern = [] \<or> pattern = ''*'' then
             (case ListUnitFilesContext d tr1 of
                Inl err \<Rightarrow> (([], Some err), tr1 @ [ListUnitFiles, Close])
              | Inr files \<Rightarrow>
                  (let (services, tr2) =
                         SystemCtl_ListServices_loop d files [] (tr1 @ [ListUnitFiles])
                   in ((services, None), tr2 @ [Close])))
           else
             (case ListUnitFilesByPatternsContext d tr1 [] [pattern] of
                Inl err \<Rightarrow> (([], Some err), tr1 @ [ListUnitFilesByPatterns [] [pattern], Close])
              | Inr files \<Rightarrow>
                  (let (services, tr2) =
                         SystemCtl_ListServices_loop d files []
                           (tr1 @ [ListUnitFilesByPatterns [] [pattern]])
                   in ((services, None), tr2 @ [Close])))))"

section \<open>The command-based backend (\<^verbatim>\<open>openrc.go\<close>)\<close>

subsection \<open>Library functions used\<close>

text \<open>
  A Go \<^verbatim>\<open>string\<close> and a \<^verbatim>\<open>[]byte\<close> are both sequences of bytes: here \<open>string\<close>, a list
  of 8-bit characters. \<^verbatim>\<open>strings.HasSuffix\<close> and \<^verbatim>\<open>strings.CutSuffix\<close>:
\<close>

definition HasSuffix :: "string \<Rightarrow> string \<Rightarrow> bool" where
  "HasSuffix s suffix =
     (length s \<ge> length suffix \<and> drop (length s - length suffix) s = suffix)"

definition CutSuffix :: "string \<Rightarrow> string \<Rightarrow> string \<times> bool" where
  "CutSuffix s suffix =
     (if \<not> HasSuffix s suffix then (s, False)
      else (take (length s - length suffix) s, True))"

text \<open>
  \<^verbatim>\<open>fmt.Sprint\<close> of a single \<^verbatim>\<open>[]byte\<close> operand formats it with the verb \<^verbatim>\<open>%v\<close>: an opening
  bracket, the bytes as unsigned decimal numbers with one space between neighbours, a
  closing bracket. (\<^verbatim>\<open>fmt.Sprint([]byte("hi"))\<close> is \<^verbatim>\<open>"[104 105]"\<close>; it is the conversion
  \<^verbatim>\<open>string(out)\<close> that would give \<^verbatim>\<open>"hi"\<close>.)
\<close>

fun fmtInteger :: "nat \<Rightarrow> string" where
  "fmtInteger n =
     (if n < 10 then [''0123456789'' ! n]
      else fmtInteger (n div 10) @ [''0123456789'' ! (n mod 10)])"

declare fmtInteger.simps [simp del]

fun fmtBytes_loop :: "bool \<Rightarrow> string \<Rightarrow> string" where
  "fmtBytes_loop first [] = []"
| "fmtBytes_loop first (c # v) =
     (if first then [] else '' '') @ fmtInteger (of_char c) @ fmtBytes_loop False v"

definition Sprint :: "string \<Rightarrow> string" where
  "Sprint v = ''['' @ fmtBytes_loop True v @ '']''"

text \<open>
  \<^verbatim>\<open>strings.Split(s, sep)\<close> for a separator of one byte, which is how the backend calls it
  (\<^verbatim>\<open>"\n"\<close>, the byte 10): the pieces between the separators, so one piece more than there
  are separators, and the whole of \<open>s\<close> as the only piece when it holds none.
\<close>

fun Split :: "string \<Rightarrow> char \<Rightarrow> string list" where
  "Split [] sep = [[]]"
| "Split (c # s) sep =
     (if c = sep then [] # Split s sep
      else (case Split s sep of
              [] \<Rightarrow> [[c]]
            | piece # pieces \<Rightarrow> (c # piece) # pieces))"

subsection \<open>The host's programs\<close>

text \<open>
  Running a program is a call on the host, a parameter like the daemon: \<open>cmd_Output\<close>
  answers \<^verbatim>\<open>exec.Command(path, args...).Output()\<close> with the captured standard output and
  the error, given the commands run so far. The error is \<^verbatim>\<open>nil\<close> when the program ran and
  exited with status zero and an \<open>ExitError\<close> when it ran and did not.
\<close>

type_synonym command = "string \<times> string list"

record host =
  cmd_Output :: "command list \<Rightarrow> string \<Rightarrow> string list \<Rightarrow> string \<times> error option"

subsection \<open>Running \<^verbatim>\<open>rc-service\<close>\<close>

type_synonym serviceCmd = string

definition cmdStart :: serviceCmd where "cmdStart = ''start''"
definition cmdStop :: serviceCmd where "cmdStop = ''stop''"
definition cmdList :: serviceCmd where "cmdList = ''list''"
definition cmdStatus :: serviceCmd where "cmdStatus = ''status''"

definition RcService ::
  "host \<Rightarrow> string \<Rightarrow> serviceCmd \<Rightarrow> command list \<Rightarrow> (string \<times> error option) \<times> command list" where
  "RcService h name command hist =
     (let args = [];
          args = (if command \<noteq> cmdList then args @ [''--quiet''] else args);
          name = fst (CutSuffix name ''.service'');
          args = (if command = cmdStart then args @ [name, ''start'']
                  else if command = cmdStop then args @ [name, ''stop'']
                  else if command = cmdStatus then args @ [name, ''status'']
                  else if command = cmdList then args @ [''--list'']
                  else args);
          (out, err) = cmd_Output h hist ''/sbin/rc-service'' args;
          hist' = hist @ [(''/sbin/rc-service'', args)]
      in if err \<noteq> None then (([], err), hist') else ((out, None), hist'))"

definition RcServiceStart :: "host \<Rightarrow> string \<Rightarrow> command list \<Rightarrow> error option \<times> command list" where
  "RcServiceStart h name hist =
     (let ((out, err), hist') = RcService h name cmdStart hist
      in if err \<noteq> None then (err, hist') else (None, hist'))"

definition RcServiceStop :: "host \<Rightarrow> string \<Rightarrow> command list \<Rightarrow> error option \<times> command list" where
  "RcServiceStop h name hist =
     (let ((out, err), hist') = RcService h name cmdStop hist
      in if err \<noteq> None then (err, hist') else (None, hist'))"

text \<open>\<^verbatim>\<open>err.(*exec.ExitError)\<close> succeeds exactly on an \<open>ExitError\<close>.\<close>

definition RcServiceStatus ::
  "host \<Rightarrow> string \<Rightarrow> command list \<Rightarrow> (bool \<times> error option) \<times> command list" where
  "RcServiceStatus h name hist =
     (let ((out, err), hist') = RcService h name cmdStatus hist
      in if err \<noteq> None then
           (case err of
              Some (ExitError code) \<Rightarrow> ((False, None), hist')
            | _ \<Rightarrow> ((False, err), hist'))
         else ((True, None), hist'))"

definition RcServiceList ::
  "host \<Rightarrow> command list \<Rightarrow> (string list \<times> error option) \<times> command list" where
  "RcServiceList h hist =
     (let ((out, err), hist') = RcService h [] cmdList hist
      in if err \<noteq> None then (([], err), hist')
         else (let str_out = Sprint out in ((Split str_out (CHR 0x0A), None), hist')))"

subsection \<open>The backend's operations\<close>

definition OpenRc_IsServiceRunning ::
  "host \<Rightarrow> string \<Rightarrow> command list \<Rightarrow> (bool \<times> error option) \<times> command list" where
  "OpenRc_IsServiceRunning h name hist = RcServiceStatus h name hist"

definition OpenRc_StartService :: "host \<Rightarrow> string \<Rightarrow> command list \<Rightarrow> error option \<times> command list" where
  "OpenRc_StartService h name hist = RcServiceStart h name hist"

definition OpenRc_StopService :: "host \<Rightarrow> string \<Rightarrow> command list \<Rightarrow> error option \<times> command list" where
  "OpenRc_StopService h name hist = RcServiceStop h name hist"

text \<open>
  \<^verbatim>\<open>filepath.Match\<close> is a parameter of the listing: it answers \<^verbatim>\<open>(matched, err)\<close>.

  The filtering loop of \<^verbatim>\<open>ListServices\<close> compacts \<^verbatim>\<open>svc_list\<close> in place. \<open>i\<close> is the index the
  \<^verbatim>\<open>range\<close> has reached and \<open>n\<close> the number of names kept; the element read at \<open>i\<close> is the
  current content of the slice. When the range is exhausted the slice is cut to its first
  \<open>n\<close> elements.
\<close>

function OpenRc_ListServices_filter ::
  "(string \<Rightarrow> string \<Rightarrow> bool \<times> error option) \<Rightarrow> string \<Rightarrow> string list \<Rightarrow> nat \<Rightarrow> nat
     \<Rightarrow> string list \<times> error option" where
  "OpenRc_ListServices_filter Match pattern svc_list i n =
     (if i < length svc_list then
        (let svc_name = svc_list ! i;
             (matched, err) = Match pattern svc_name
         in if err \<noteq> None then ([], err)
            else if matched then
              OpenRc_ListServices_filter Match pattern (svc_list[n := svc_name]) (Suc i) (Suc n)
            else OpenRc_ListServices_filter Match pattern svc_list (Suc i) n)
      else (take n svc_list, None))"
  by pat_completeness auto
termination
  by (relation "measure (\<lambda>(Match, pattern, svc_list, i, n). length svc_list - i)") auto

declare OpenRc_ListServices_filter.simps [simp del]

text \<open>The second loop probes every remaining name and stops at the first error.\<close>

fun OpenRc_ListServices_probe ::
  "host \<Rightarrow> string list \<Rightarrow> InitService list \<Rightarrow> command list
     \<Rightarrow> (InitService list \<times> error option) \<times> command list" where
  "OpenRc_ListServices_probe h [] services hist = ((services, None), hist)"
| "OpenRc_ListServices_probe h (svc_name # svc_list) services hist =
     (let ((running, err), hist') = OpenRc_IsServiceRunning h svc_name hist
      in if err \<noteq> None then (([], err), hist')
         else OpenRc_ListServices_probe h svc_list
                (services @ [\<lparr>Name = svc_name, Running = running\<rparr>]) hist')"

definition OpenRc_ListServices ::
  "(string \<Rightarrow> string \<Rightarrow> bool \<times> error option) \<Rightarrow> host \<Rightarrow> string \<Rightarrow> command list
     \<Rightarrow> (InitService list \<times> error option) \<times> command list" where
  "OpenRc_ListServices Match h pattern hist =
     (let ((svc_list, err), hist1) = RcServiceList h hist
      in if err \<noteq> None then (([], err), hist1)
         else
           (let (svc_list, err) =
                  (if pattern \<noteq> [] \<and> pattern \<noteq> ''*''
                   then OpenRc_ListServices_filter Match pattern svc_list 0 0
                   else (svc_list, None))
            in if err \<noteq> None then (([], err), hist1)
               else OpenRc_ListServices_probe h svc_list [] hist1))"

section \<open>The backend selector\<close>

datatype InitManager = OpenRc | SystemCtl

text \<open>
  \<^verbatim>\<open>os.Stat\<close> is a parameter (only its error is looked at). \<^verbatim>\<open>os.IsNotExist\<close> is true of
  an error whose underlying \<^verbatim>\<open>syscall.Errno\<close> is \<^verbatim>\<open>ENOENT\<close>, and false of \<^verbatim>\<open>nil\<close> and of every
  other error.
\<close>

definition ENOENT :: nat where "ENOENT = 2"
definition EACCES :: nat where "EACCES = 13"

definition IsNotExist :: "error option \<Rightarrow> bool" where
  "IsNotExist err = (err = Some (PathError ENOENT))"

definition NewInitManager :: "(string \<Rightarrow> error option) \<Rightarrow> InitManager" where
  "NewInitManager Stat =
     (let err = Stat ''/run/systemd/system/''
      in if IsNotExist err then OpenRc else SystemCtl)"

section \<open>Notions used to state the properties\<close>

subsection \<open>Reading the record of calls\<close>

text \<open>The calls a function added to the record \<open>tr\<close> it was given.\<close>

definition new_calls :: "call list \<Rightarrow> call list \<Rightarrow> call list" where
  "new_calls tr tr' = drop (length tr) tr'"

fun is_StartUnit :: "call \<Rightarrow> bool" where
  "is_StartUnit (StartUnit name mode) = True"
| "is_StartUnit c = False"

fun is_DisableUnitFiles :: "call \<Rightarrow> bool" where
  "is_DisableUnitFiles (DisableUnitFiles names runtime) = True"
| "is_DisableUnitFiles c = False"

fun is_StopUnit :: "call \<Rightarrow> bool" where
  "is_StopUnit (StopUnit name mode) = True"
| "is_StopUnit c = False"

text \<open>
  The record of calls at the point where \<^verbatim>\<open>EnableService\<close> has read \<^verbatim>\<open>ActiveState\<close>, and
  at the point where \<^verbatim>\<open>DisableService\<close> has read the properties.
\<close>

definition enable_calls :: "call list \<Rightarrow> string \<Rightarrow> call list" where
  "enable_calls tr name =
     tr @ [Connect, EnableUnitFiles [name] False True, GetUnitProperty name ''ActiveState'']"

definition disable_calls :: "call list \<Rightarrow> string \<Rightarrow> call list" where
  "disable_calls tr name = tr @ [Connect, GetUnitProperties name]"

text \<open>The listing call that \<^verbatim>\<open>ListServices\<close> of the D-Bus backend makes for a pattern.\<close>

definition listing_call :: "systemd \<Rightarrow> string \<Rightarrow> call list \<Rightarrow> error + UnitFile list" where
  "listing_call d pattern tr1 =
     (if pattern = [] \<or> pattern = ''*'' then ListUnitFilesContext d tr1
      else ListUnitFilesByPatternsContext d tr1 [] [pattern])"

text \<open>
  The record of calls once \<^verbatim>\<open>ListServices\<close> of the D-Bus backend has connected and made its
  listing call, and the record at which its loop probes the file at index \<open>i\<close>, which is
  the record left by the listing call and by the probes of the files before it. With \<open>i\<close>
  the number of files it is the record when the loop is left.
\<close>

definition listing_calls :: "call list \<Rightarrow> string \<Rightarrow> call list" where
  "listing_calls tr pattern =
     tr @ [Connect, if pattern = [] \<or> pattern = ''*'' then ListUnitFiles
                    else ListUnitFilesByPatterns [] [pattern]]"

fun probe_record :: "systemd \<Rightarrow> UnitFile list \<Rightarrow> call list \<Rightarrow> nat \<Rightarrow> call list" where
  "probe_record d [] tr i = tr"
| "probe_record d (f # files) tr 0 = tr"
| "probe_record d (f # files) tr (Suc i) =
     probe_record d files (snd (SystemCtl_IsServiceRunning d (Base (Path f)) tr)) i"

subsection \<open>The result taxonomy in the specification's words\<close>

text \<open>
  \<open>done\<close> is success, each of the five other outcomes has its own error, and every other
  string is the unknown error.
\<close>

definition Result_Taxonomy :: "string \<Rightarrow> error option" where
  "Result_Taxonomy result =
     (if result = ''done'' then None
      else if result = ''canceled'' then Some ErrorCanceled
      else if result = ''timeout'' then Some ErrorTimeout
      else if result = ''failed'' then Some ErrorFailed
      else if result = ''dependency'' then Some ErrorDependency
      else if result = ''skipped'' then Some ErrorSkipped
      else Some ErrorUnknown)"

subsection \<open>Example collaborators\<close>

text \<open>
  Two unit files, and a daemon that accepts every call, lists these unit files (the first
  of them for any pattern), reports \<open>state\<close> as the \<^verbatim>\<open>ActiveState\<close> of every unit and
  completes every job with \<open>outcome\<close>.
\<close>

definition example_units :: "UnitFile list" where
  "example_units =
     [\<lparr>Path = ''/lib/systemd/system/web.service'', Type = ''enabled''\<rparr>,
      \<lparr>Path = ''/lib/systemd/system/db.service'', Type = ''disabled''\<rparr>]"

definition example_daemon :: "string \<Rightarrow> string \<Rightarrow> systemd" where
  "example_daemon state outcome =
     \<lparr>NewSystemdConnectionContext = (\<lambda>tr. None),
      ListUnitFilesContext = (\<lambda>tr. Inr example_units),
      ListUnitFilesByPatternsContext = (\<lambda>tr states patterns. Inr (take 1 example_units)),
      GetUnitPropertyContext = (\<lambda>tr name property. Inr (VString state)),
      GetUnitPropertiesContext = (\<lambda>tr name. Inr [''ActiveState'' \<mapsto> VString state]),
      EnableUnitFilesContext = (\<lambda>tr names runtime force. None),
      DisableUnitFilesContext = (\<lambda>tr names runtime. None),
      StartUnitContext = (\<lambda>tr name mode. Inr (Some outcome)),
      StopUnitContext = (\<lambda>tr name mode. Inr (Some outcome))\<rparr>"

text \<open>
  The same daemon when it accepts one connection only: a connection is refused once any
  call has been made.
\<close>

definition busy_daemon :: systemd where
  "busy_daemon = (example_daemon ''active'' ''done'')
     \<lparr>NewSystemdConnectionContext :=
        (\<lambda>tr. if tr = [] then None else Some (DBusError ''connection refused''))\<rparr>"

text \<open>A host on which every program prints \<open>out\<close> and ends with the error \<open>err\<close>.\<close>

definition example_host :: "string \<Rightarrow> error option \<Rightarrow> host" where
  "example_host out err = \<lparr>cmd_Output = (\<lambda>hist path args. (out, err))\<rparr>"

text \<open>Two answers of \<^verbatim>\<open>os.Stat\<close>: permission denied, and no such file or directory.\<close>

definition stat_permission_denied :: "string \<Rightarrow> error option" where
  "stat_permission_denied path = Some (PathError EACCES)"

definition stat_not_exist :: "string \<Rightarrow> error option" where
  "stat_not_exist path = Some (PathError ENOENT)"

text \<open>What \<^verbatim>\<open>rc-service --list\<close> prints on a host with the services \<open>sshd\<close> and \<open>cron\<close>.\<close>

definition example_listing :: string where
  "example_listing = ''sshd'' @ [CHR 0x0A] @ ''cron'' @ [CHR 0x0A]"

text \<open>
  A matcher for the examples: \<open>*\<close> stands for any run of characters other than \<open>/\<close>,
  \<open>?\<close> for one such character, every other character for itself; it never fails.
\<close>

fun example_glob :: "string \<Rightarrow> string \<Rightarrow> bool" where
  "example_glob [] name = (name = [])"
| "example_glob (p # ps) [] = (p = CHR ''*'' \<and> example_glob ps [])"
| "example_glob (p # ps) (c # cs) =
     (if p = CHR ''*'' then example_glob ps (c # cs) \<or> (c \<noteq> CHR ''/'' \<and> example_glob (p # ps) cs)
      else if p = CHR ''?'' then c \<noteq> CHR ''/'' \<and> example_glob ps cs
      else p = c \<and> example_glob ps cs)"

definition example_Match :: "string \<Rightarrow> string \<Rightarrow> bool \<times> error option" where
  "example_Match pattern name = (example_glob pattern name, None)"

section \<open>Properties of the D-Bus backend\<close>

subsection \<open>Job outcomes\<close>

lemma ErrorMap_eq:
  "ErrorMap result =
     (if result = ''done'' then Some None
      else if result = ''canceled'' then Some (Some ErrorCanceled)
      else if result = ''timeout'' then Some (Some ErrorTimeout)
      else if result = ''failed'' then Some (Some ErrorFailed)
      else if result = ''dependency'' then Some (Some ErrorDependency)
      else if result = ''skipped'' then Some (Some ErrorSkipped)
      else None)"
  by (simp add: ErrorMap_def ResultDone_def ResultCanceled_def ResultTimeout_def
      ResultFailed_def ResultDependency_def ResultSkipped_def)

text \<open>
  Claim C1. When the connection is made and the start (or stop) transaction is accepted,
  the string received on the completion channel decides the result of \<^verbatim>\<open>StartService\<close>
  (of \<^verbatim>\<open>StopService\<close>) as the taxonomy says: \<open>done\<close> gives \<^verbatim>\<open>nil\<close>, each of \<open>canceled\<close>,
  \<open>timeout\<close>, \<open>failed\<close>, \<open>dependency\<close> and \<open>skipped\<close> gives its own error, and any other
  string gives the unknown error. The seven results are pairwise different, so the unknown
  error is neither success nor one of the five taxonomy errors.
\<close>

theorem job_outcome_resolution:
  "(NewSystemdConnectionContext d tr = None \<and>
      StartUnitContext d (tr @ [Connect]) name ''replace'' = Inr (Some result)
      \<longrightarrow> fst (SystemCtl_StartService d name tr) = Returns (Result_Taxonomy result))
   \<and> (NewSystemdConnectionContext d tr = None \<and>
      StopUnitContext d (tr @ [Connect]) name ''replace'' = Inr (Some result)
      \<longrightarrow> fst (SystemCtl_StopService d name tr) = Returns (Result_Taxonomy result))
   \<and> distinct [None, Some ErrorCanceled, Some ErrorTimeout, Some ErrorFailed,
        Some ErrorDependency, Some ErrorSkipped, Some ErrorUnknown]"
  by (simp add: SystemCtl_StartService_def SystemCtl_StopService_def Let_def ErrorMap_eq
      ResultDone_def Result_Taxonomy_def)

theorem job_outcome_resolution_witness:
  "fst (SystemCtl_StartService (example_daemon ''inactive'' ''failed'') ''web'' [])
     = Returns (Some ErrorFailed)
   \<and> fst (SystemCtl_StopService (example_daemon ''active'' ''vanished'') ''web'' [])
     = Returns (Some ErrorUnknown)"
  using job_outcome_resolution [of "example_daemon ''inactive'' ''failed''" "[]" "''web''" "''failed''"]
    job_outcome_resolution [of "example_daemon ''active'' ''vanished''" "[]" "''web''" "''vanished''"]
  by (simp add: example_daemon_def Result_Taxonomy_def)

subsection \<open>The calls made by start and stop\<close>

lemma new_calls_append [simp]: "new_calls tr (tr @ cs) = cs"
  by (simp add: new_calls_def)

lemma StartService_calls:
  "snd (SystemCtl_StartService d name tr) = tr @
     (case NewSystemdConnectionContext d tr of
        Some err \<Rightarrow> [Connect]
      | None \<Rightarrow>
          (case StartUnitContext d (tr @ [Connect]) name ''replace'' of
             Inr None \<Rightarrow> [Connect, StartUnit name ''replace'']
           | _ \<Rightarrow> [Connect, StartUnit name ''replace'', Close]))"
  by (simp add: SystemCtl_StartService_def Let_def split: option.splits sum.splits)

lemma StopService_calls:
  "snd (SystemCtl_StopService d name tr) = tr @
     (case NewSystemdConnectionContext d tr of
        Some err \<Rightarrow> [Connect]
      | None \<Rightarrow>
          (case StopUnitContext d (tr @ [Connect]) name ''replace'' of
             Inr None \<Rightarrow> [Connect, StopUnit name ''replace'']
           | _ \<Rightarrow> [Connect, StopUnit name ''replace'', Close]))"
  by (simp add: SystemCtl_StopService_def Let_def split: option.splits sum.splits)

lemma deferred_Close_fst: "fst (deferred_Close p) = fst p"
  by (cases p; cases "fst p") auto

lemma deferred_Close_snd:
  "snd (deferred_Close p) = snd p @ (case fst p of Returns r \<Rightarrow> [Close] | Blocks \<Rightarrow> [])"
  by (cases p; cases "fst p") auto

subsection \<open>Disabling\<close>

lemma stop_no_disable:
  "filter is_DisableUnitFiles
     (new_calls tr (snd (deferred_Close (SystemCtl_StopService d name (tr @ cs)))))
   = filter is_DisableUnitFiles cs"
  by (simp add: deferred_Close_snd StopService_calls
      split: option.splits sum.splits completion.splits)

lemma disable_active:
  "NewSystemdConnectionContext d tr = None \<Longrightarrow>
   GetUnitPropertiesContext d (tr @ [Connect]) name = Inr properties \<Longrightarrow>
   properties ''ActiveState'' = Some (VString ''active'') \<Longrightarrow>
   SystemCtl_DisableService d name tr
     = deferred_Close (SystemCtl_StopService d name (disable_calls tr name))"
  by (simp add: SystemCtl_DisableService_def disable_calls_def Let_def)

lemma disable_transactions:
  "filter is_DisableUnitFiles (new_calls tr (snd (SystemCtl_DisableService d name tr))) =
     (case NewSystemdConnectionContext d tr of
        Some err \<Rightarrow> []
      | None \<Rightarrow>
          (case GetUnitPropertiesContext d (tr @ [Connect]) name of
             Inl err \<Rightarrow> []
           | Inr properties \<Rightarrow>
               (if properties ''ActiveState'' = Some (VString ''active'') then []
                else [DisableUnitFiles [name] False])))"
proof (cases "NewSystemdConnectionContext d tr")
  case (Some err)
  then show ?thesis by (simp add: SystemCtl_DisableService_def)
next
  case None
  show ?thesis
  proof (cases "GetUnitPropertiesContext d (tr @ [Connect]) name")
    case (Inl err)
    with None show ?thesis by (simp add: SystemCtl_DisableService_def Let_def)
  next
    case (Inr props)
    show ?thesis
    proof (cases "props ''ActiveState'' = Some (VString ''active'')")
      case True
      have "filter is_DisableUnitFiles
              (new_calls tr (snd (SystemCtl_DisableService d name tr))) = []"
        unfolding disable_active [OF None Inr True] disable_calls_def stop_no_disable by simp
      with None Inr True show ?thesis by simp
    next
      case False
      have "new_calls tr (snd (SystemCtl_DisableService d name tr))
              = [Connect, GetUnitProperties name, DisableUnitFiles [name] False, Close]"
        using None Inr False
        by (simp add: SystemCtl_DisableService_def Let_def split: option.splits)
      with None Inr False show ?thesis by simp
    qed
  qed
qed

lemma stop_transactions:
  "filter is_StopUnit
     (new_calls tr (snd (deferred_Close (SystemCtl_StopService d name (disable_calls tr name)))))
   = (if NewSystemdConnectionContext d (disable_calls tr name) = None
      then [StopUnit name ''replace''] else [])"
  by (simp add: deferred_Close_snd StopService_calls disable_calls_def
      split: option.splits sum.splits completion.splits)

text \<open>
  Claim C4. When \<^verbatim>\<open>DisableService\<close> has connected and reads \<^verbatim>\<open>ActiveState\<close> as \<open>active\<close>, it
  is \<^verbatim>\<open>StopService\<close> called at that point (followed by the deferred close): the result is the
  stop's result, the stop transactions among the calls made are the one
  \<^verbatim>\<open>StopUnit name replace\<close> (none if the stop's own connection fails), and no
  disable-unit-files transaction is among them. Whenever a disable-unit-files transaction
  is among the calls of a \<^verbatim>\<open>DisableService\<close>, the connection had been made and the properties
  had been read with an \<^verbatim>\<open>ActiveState\<close> other than \<open>active\<close>.
\<close>

theorem disable_stops_when_active:
  "(NewSystemdConnectionContext d tr = None
      \<and> GetUnitPropertiesContext d (tr @ [Connect]) name = Inr properties
      \<and> properties ''ActiveState'' = Some (VString ''active'')
    \<longrightarrow> SystemCtl_DisableService d name tr
          = deferred_Close (SystemCtl_StopService d name (disable_calls tr name))
        \<and> fst (SystemCtl_DisableService d name tr)
          = fst (SystemCtl_StopService d name (disable_calls tr name))
        \<and> filter is_StopUnit (new_calls tr (snd (SystemCtl_DisableService d name tr)))
          = (if NewSystemdConnectionContext d (disable_calls tr name) = None
             then [StopUnit name ''replace''] else [])
        \<and> filter is_DisableUnitFiles
            (new_calls tr (snd (SystemCtl_DisableService d name tr))) = [])
   \<and> (filter is_DisableUnitFiles
         (new_calls tr (snd (SystemCtl_DisableService d name tr))) \<noteq> []
    \<longrightarrow> NewSystemdConnectionContext d tr = None
        \<and> (\<exists>properties. GetUnitPropertiesContext d (tr @ [Connect]) name = Inr properties
              \<and> properties ''ActiveState'' \<noteq> Some (VString ''active'')))"
proof (intro conjI impI)
  assume a: "NewSystemdConnectionContext d tr = None
      \<and> GetUnitPropertiesContext d (tr @ [Connect]) name = Inr properties
      \<and> properties ''ActiveState'' = Some (VString ''active'')"
  then show eq: "SystemCtl_DisableService d name tr
          = deferred_Close (SystemCtl_StopService d name (disable_calls tr name))"
    by (simp add: disable_active)
  show "fst (SystemCtl_DisableService d name tr)
          = fst (SystemCtl_StopService d name (disable_calls tr name))"
    unfolding eq by (rule deferred_Close_fst)
  show "filter is_StopUnit (new_calls tr (snd (SystemCtl_DisableService d name tr)))
          = (if NewSystemdConnectionContext d (disable_calls tr name) = None
             then [StopUnit name ''replace''] else [])"
    unfolding eq by (rule stop_transactions)
  show "filter is_DisableUnitFiles
          (new_calls tr (snd (SystemCtl_DisableService d name tr))) = []"
    using a by (simp add: disable_transactions)
next
  assume b: "filter is_DisableUnitFiles
               (new_calls tr (snd (SystemCtl_DisableService d name tr))) \<noteq> []"
  then show "NewSystemdConnectionContext d tr = None"
    by (simp add: disable_transactions split: option.splits)
  from b show "\<exists>properties. GetUnitPropertiesContext d (tr @ [Connect]) name = Inr properties
              \<and> properties ''ActiveState'' \<noteq> Some (VString ''active'')"
    by (simp add: disable_transactions split: option.splits sum.splits if_splits)
qed

theorem disable_stops_when_active_witness:
  "fst (SystemCtl_DisableService (example_daemon ''active'' ''done'') ''web'' [])
     = fst (SystemCtl_StopService (example_daemon ''active'' ''done'') ''web''
              (disable_calls [] ''web''))
   \<and> filter is_StopUnit
        (new_calls [] (snd (SystemCtl_DisableService (example_daemon ''active'' ''done'') ''web'' [])))
      = [StopUnit ''web'' ''replace'']
   \<and> filter is_DisableUnitFiles
        (new_calls [] (snd (SystemCtl_DisableService (example_daemon ''active'' ''done'') ''web'' [])))
      = []"
proof -
  let ?d = "example_daemon ''active'' ''done''"
  let ?p = "[''ActiveState'' \<mapsto> VString ''active'']"
  have pre: "NewSystemdConnectionContext ?d [] = None
      \<and> GetUnitPropertiesContext ?d ([] @ [Connect]) ''web'' = Inr ?p
      \<and> ?p ''ActiveState'' = Some (VString ''active'')"
    by (simp add: example_daemon_def)
  have conn: "NewSystemdConnectionContext ?d (disable_calls [] ''web'') = None"
    by (simp add: example_daemon_def)
  from disable_stops_when_active [of ?d "[]" "''web''" ?p] pre
  have "fst (SystemCtl_DisableService ?d ''web'' [])
          = fst (SystemCtl_StopService ?d ''web'' (disable_calls [] ''web''))
      \<and> filter is_StopUnit (new_calls [] (snd (SystemCtl_DisableService ?d ''web'' [])))
          = (if NewSystemdConnectionContext ?d (disable_calls [] ''web'') = None
             then [StopUnit ''web'' ''replace''] else [])
      \<and> filter is_DisableUnitFiles (new_calls [] (snd (SystemCtl_DisableService ?d ''web'' []))) = []"
    by blast
  then show ?thesis by (simp only: conn simp_thms if_True)
qed

subsection \<open>Enabling\<close>

lemma enable_inactive:
  "NewSystemdConnectionContext d tr = None \<Longrightarrow>
   EnableUnitFilesContext d (tr @ [Connect]) [name] False True = None \<Longrightarrow>
   GetUnitPropertyContext d (tr @ [Connect, EnableUnitFiles [name] False True])
     name ''ActiveState'' = Inr property \<Longrightarrow>
   property \<noteq> VString ''active'' \<Longrightarrow>
   SystemCtl_EnableService d name tr
     = deferred_Close (SystemCtl_StartService d name (enable_calls tr name))"
  by (simp add: SystemCtl_EnableService_def enable_calls_def Let_def)

lemma enable_active:
  "NewSystemdConnectionContext d tr = None \<Longrightarrow>
   EnableUnitFilesContext d (tr @ [Connect]) [name] False True = None \<Longrightarrow>
   GetUnitPropertyContext d (tr @ [Connect, EnableUnitFiles [name] False True])
     name ''ActiveState'' = Inr (VString ''active'') \<Longrightarrow>
   SystemCtl_EnableService d name tr = (Returns None, enable_calls tr name @ [Close])"
  by (simp add: SystemCtl_EnableService_def enable_calls_def Let_def)

lemma start_transactions:
  "length (filter is_StartUnit
     (new_calls tr (snd (deferred_Close (SystemCtl_StartService d name (enable_calls tr name))))))
   = (if NewSystemdConnectionContext d (enable_calls tr name) = None then 1 else 0)"
  by (simp add: deferred_Close_snd StartService_calls enable_calls_def
      split: option.splits sum.splits completion.splits)

text \<open>
  Claim C5. When \<^verbatim>\<open>EnableService\<close> has connected, its enable-unit-files transaction has
  succeeded and the read of \<^verbatim>\<open>ActiveState\<close> has returned a value: if the value is not
  \<open>active\<close>, the call is \<^verbatim>\<open>StartService\<close> called once at that point (followed by the deferred
  close), its result is that start's result, and it issues one start transaction (none if
  the start's own connection fails); if the value is \<open>active\<close>, the call returns \<^verbatim>\<open>nil\<close>
  having made no further call but the close.
\<close>

theorem enable_starts_once:
  "(NewSystemdConnectionContext d tr = None
      \<and> EnableUnitFilesContext d (tr @ [Connect]) [name] False True = None
      \<and> GetUnitPropertyContext d (tr @ [Connect, EnableUnitFiles [name] False True])
           name ''ActiveState'' = Inr property
      \<and> property \<noteq> VString ''active''
    \<longrightarrow> SystemCtl_EnableService d name tr
          = deferred_Close (SystemCtl_StartService d name (enable_calls tr name))
        \<and> fst (SystemCtl_EnableService d name tr)
          = fst (SystemCtl_StartService d name (enable_calls tr name))
        \<and> length (filter is_StartUnit
             (new_calls tr (snd (SystemCtl_EnableService d name tr))))
          = (if NewSystemdConnectionContext d (enable_calls tr name) = None then 1 else 0))
   \<and> (NewSystemdConnectionContext d tr = None
      \<and> EnableUnitFilesContext d (tr @ [Connect]) [name] False True = None
      \<and> GetUnitPropertyContext d (tr @ [Connect, EnableUnitFiles [name] False True])
           name ''ActiveState'' = Inr (VString ''active'')
    \<longrightarrow> SystemCtl_EnableService d name tr = (Returns None, enable_calls tr name @ [Close]))"
proof (intro conjI impI)
  assume a: "NewSystemdConnectionContext d tr = None
      \<and> EnableUnitFilesContext d (tr @ [Connect]) [name] False True = None
      \<and> GetUnitPropertyContext d (tr @ [Connect, EnableUnitFiles [name] False True])
           name ''ActiveState'' = Inr property
      \<and> property \<noteq> VString ''active''"
  then show eq: "SystemCtl_EnableService d name tr
          = deferred_Close (SystemCtl_StartService d name (enable_calls tr name))"
    by (simp add: enable_inactive)
  show "fst (SystemCtl_EnableService d name tr)
          = fst (SystemCtl_StartService d name (enable_calls tr name))"
    unfolding eq by (rule deferred_Close_fst)
  show "length (filter is_StartUnit (new_calls tr (snd (SystemCtl_EnableService d name tr))))
          = (if NewSystemdConnectionContext d (enable_calls tr name) = None then 1 else 0)"
    unfolding eq by (rule start_transactions)
next
  assume "NewSystemdConnectionContext d tr = None
      \<and> EnableUnitFilesContext d (tr @ [Connect]) [name] False True = None
      \<and> GetUnitPropertyContext d (tr @ [Connect, EnableUnitFiles [name] False True])
           name ''ActiveState'' = Inr (VString ''active'')"
  then show "SystemCtl_EnableService d name tr = (Returns None, enable_calls tr name @ [Close])"
    by (simp add: enable_active)
qed

theorem enable_starts_once_witness:
  "fst (SystemCtl_EnableService (example_daemon ''inactive'' ''done'') ''web'' [])
     = fst (SystemCtl_StartService (example_daemon ''inactive'' ''done'') ''web''
              (enable_calls [] ''web''))
   \<and> length (filter is_StartUnit
        (new_calls [] (snd (SystemCtl_EnableService (example_daemon ''inactive'' ''done'') ''web'' []))))
      = 1
   \<and> SystemCtl_EnableService (example_daemon ''active'' ''done'') ''web'' []
      = (Returns None, enable_calls [] ''web'' @ [Close])"
proof -
  let ?d = "example_daemon ''inactive'' ''done''"
  let ?e = "example_daemon ''active'' ''done''"
  have pre: "NewSystemdConnectionContext ?d [] = None
      \<and> EnableUnitFilesContext ?d ([] @ [Connect]) [''web''] False True = None
      \<and> GetUnitPropertyContext ?d ([] @ [Connect, EnableUnitFiles [''web''] False True])
           ''web'' ''ActiveState'' = Inr (VString ''inactive'')
      \<and> VString ''inactive'' \<noteq> VString ''active''"
    by (simp add: example_daemon_def)
  have conn: "NewSystemdConnectionContext ?d (enable_calls [] ''web'') = None"
    by (simp add: example_daemon_def)
  have pre': "NewSystemdConnectionContext ?e [] = None
      \<and> EnableUnitFilesContext ?e ([] @ [Connect]) [''web''] False True = None
      \<and> GetUnitPropertyContext ?e ([] @ [Connect, EnableUnitFiles [''web''] False True])
           ''web'' ''ActiveState'' = Inr (VString ''active'')"
    by (simp add: example_daemon_def)
  from enable_starts_once [of ?d "[]" "''web''" "VString ''inactive''"] pre
  have "fst (SystemCtl_EnableService ?d ''web'' [])
          = fst (SystemCtl_StartService ?d ''web'' (enable_calls [] ''web''))
      \<and> length (filter is_StartUnit (new_calls [] (snd (SystemCtl_EnableService ?d ''web'' []))))
          = (if NewSystemdConnectionContext ?d (enable_calls [] ''web'') = None then 1 else 0)"
    by blast
  then have "fst (SystemCtl_EnableService ?d ''web'' [])
          = fst (SystemCtl_StartService ?d ''web'' (enable_calls [] ''web''))
      \<and> length (filter is_StartUnit (new_calls [] (snd (SystemCtl_EnableService ?d ''web'' [])))) = 1"
    by (simp only: conn simp_thms if_True)
  moreover from enable_starts_once [of ?e "[]" "''web''"] pre'
  have "SystemCtl_EnableService ?e ''web'' [] = (Returns None, enable_calls [] ''web'' @ [Close])"
    by blast
  ultimately show ?thesis by blast
qed

subsection \<open>Listing\<close>

lemma ListServices_loop_keeps:
  "j < length services \<Longrightarrow>
     fst (SystemCtl_ListServices_loop d files services tr) ! j = services ! j"
  by (induction files arbitrary: services tr) (auto simp: Let_def nth_append split: prod.splits)

lemma ListServices_loop_length:
  "length (fst (SystemCtl_ListServices_loop d files services tr)) = length services + length files"
  by (induction files arbitrary: services tr) (auto simp: Let_def split: prod.splits)

lemma ListServices_loop_record:
  "snd (SystemCtl_ListServices_loop d files services tr) = probe_record d files tr (length files)"
  by (induction files arbitrary: services tr) (auto simp: Let_def split: prod.splits)

lemma ListServices_loop_at:
  "i < length files \<Longrightarrow>
     fst (SystemCtl_ListServices_loop d files services tr) ! (length services + i)
       = \<lparr>Name = Base (Path (files ! i)),
          Running = (fst (SystemCtl_IsServiceRunning d (Base (Path (files ! i)))
                            (probe_record d files tr i)) = (True, None))\<rparr>"
proof (induction files arbitrary: services tr i)
  case Nil
  then show ?case by simp
next
  case (Cons f files)
  obtain running err tr1 where probe:
    "SystemCtl_IsServiceRunning d (Base (Path f)) tr = ((running, err), tr1)"
    by (metis prod.exhaust)
  let ?s = "\<lparr>Name = Base (Path f), Running = (err = None \<and> running)\<rparr>"
  have step: "SystemCtl_ListServices_loop d (f # files) services tr
                = SystemCtl_ListServices_loop d files (services @ [?s]) tr1"
    using probe by simp
  show ?case
  proof (cases i)
    case 0
    have "fst (SystemCtl_ListServices_loop d files (services @ [?s]) tr1) ! length services = ?s"
      using ListServices_loop_keeps [of "length services" "services @ [?s]" d files tr1] by simp
    moreover have "(err = None \<and> running)
        = (fst (SystemCtl_IsServiceRunning d (Base (Path f)) tr) = (True, None))"
      using probe by auto
    ultimately show ?thesis using 0 step by simp
  next
    case (Suc k)
    then have k: "k < length files" using Cons.prems by simp
    have "probe_record d (f # files) tr (Suc k) = probe_record d files tr1 k"
      using probe by simp
    with Cons.IH [OF k, of "services @ [?s]" tr1] Suc step show ?thesis by simp
  qed
qed

lemma ListServices_record:
  "NewSystemdConnectionContext d tr = None \<Longrightarrow>
   listing_call d pattern (tr @ [Connect]) = Inr files \<Longrightarrow>
   SystemCtl_ListServices d pattern tr =
     ((fst (SystemCtl_ListServices_loop d files [] (listing_calls tr pattern)), None),
      snd (SystemCtl_ListServices_loop d files [] (listing_calls tr pattern)) @ [Close])"
  by (auto simp add: SystemCtl_ListServices_def listing_call_def listing_calls_def Let_def
      split: prod.splits)

lemma ListServices_eq:
  "fst (SystemCtl_ListServices d pattern tr) =
     (case NewSystemdConnectionContext d tr of
        Some e \<Rightarrow> ([], Some e)
      | None \<Rightarrow>
          (case listing_call d pattern (tr @ [Connect]) of
             Inl e \<Rightarrow> ([], Some e)
           | Inr files \<Rightarrow>
               (fst (SystemCtl_ListServices_loop d files []
                  (tr @ [Connect, if pattern = [] \<or> pattern = ''*'' then ListUnitFiles
                                  else ListUnitFilesByPatterns [] [pattern]])), None)))"
  by (simp add: SystemCtl_ListServices_def listing_call_def Let_def
      split: option.splits sum.splits prod.splits)

text \<open>
  Claim C7. \<^verbatim>\<open>ListServices\<close> of the D-Bus backend returns an error exactly when its own
  connection or its listing call fails, and then that error. Otherwise it returns, with no
  error, one descriptor per unit file the listing call returned, in the same order, named
  by the base name of the file's path. The calls it makes after the listing call are the
  probes of these names, one after the other, and the close. The \<open>Running\<close> flag of a
  descriptor is whether the probe of that name, made at the record the listing had reached,
  returned \<^verbatim>\<open>(true, nil)\<close>; so when that probe returns an error the flag is \<open>False\<close>, and
  the listing still has every descriptor and no error.
\<close>

theorem listing_tolerates_probe_failures:
  "(case NewSystemdConnectionContext d tr of
      Some e \<Rightarrow> fst (SystemCtl_ListServices d pattern tr) = ([], Some e)
    | None \<Rightarrow>
        (case listing_call d pattern (tr @ [Connect]) of
           Inl e \<Rightarrow> fst (SystemCtl_ListServices d pattern tr) = ([], Some e)
         | Inr files \<Rightarrow>
             (\<exists>services. fst (SystemCtl_ListServices d pattern tr) = (services, None)
                \<and> snd (SystemCtl_ListServices d pattern tr)
                    = probe_record d files (listing_calls tr pattern) (length files) @ [Close]
                \<and> length services = length files
                \<and> (\<forall>i<length files.
                      Name (services ! i) = Base (Path (files ! i))
                      \<and> Running (services ! i)
                          = (fst (SystemCtl_IsServiceRunning d (Base (Path (files ! i)))
                                    (probe_record d files (listing_calls tr pattern) i))
                               = (True, None))
                      \<and> (snd (fst (SystemCtl_IsServiceRunning d (Base (Path (files ! i)))
                                    (probe_record d files (listing_calls tr pattern) i))) \<noteq> None
                           \<longrightarrow> \<not> Running (services ! i))))))"
proof (cases "NewSystemdConnectionContext d tr")
  case (Some e)
  then show ?thesis by (simp add: ListServices_eq)
next
  case None
  show ?thesis
  proof (cases "listing_call d pattern (tr @ [Connect])")
    case (Inl e)
    with None show ?thesis by (simp add: ListServices_eq)
  next
    case (Inr files)
    let ?tr2 = "listing_calls tr pattern"
    let ?services = "fst (SystemCtl_ListServices_loop d files [] ?tr2)"
    have r: "fst (SystemCtl_ListServices d pattern tr) = (?services, None)"
      and t: "snd (SystemCtl_ListServices d pattern tr)
                = probe_record d files ?tr2 (length files) @ [Close]"
      by (simp_all add: ListServices_record [OF None Inr] ListServices_loop_record)
    have len: "length ?services = length files"
      by (simp add: ListServices_loop_length)
    have each: "Name (?services ! i) = Base (Path (files ! i))
        \<and> Running (?services ! i)
              = (fst (SystemCtl_IsServiceRunning d (Base (Path (files ! i)))
                        (probe_record d files ?tr2 i)) = (True, None))
        \<and> (snd (fst (SystemCtl_IsServiceRunning d (Base (Path (files ! i)))
                        (probe_record d files ?tr2 i))) \<noteq> None
             \<longrightarrow> \<not> Running (?services ! i))"
      if "i < length files" for i
    proof -
      from ListServices_loop_at [OF that, of d "[]" ?tr2] have e:
        "?services ! i = \<lparr>Name = Base (Path (files ! i)),
           Running = (fst (SystemCtl_IsServiceRunning d (Base (Path (files ! i)))
                        (probe_record d files ?tr2 i)) = (True, None))\<rparr>"
        by simp
      then have n: "Name (?services ! i) = Base (Path (files ! i))"
        and u: "Running (?services ! i)
              = (fst (SystemCtl_IsServiceRunning d (Base (Path (files ! i)))
                        (probe_record d files ?tr2 i)) = (True, None))"
        by simp_all
      have "snd (fst (SystemCtl_IsServiceRunning d (Base (Path (files ! i)))
                        (probe_record d files ?tr2 i))) \<noteq> None
             \<Longrightarrow> \<not> Running (?services ! i)"
        unfolding u by (auto simp: prod_eq_iff)
      with n u show ?thesis by blast
    qed
    have "\<exists>services. fst (SystemCtl_ListServices d pattern tr) = (services, None)
                \<and> snd (SystemCtl_ListServices d pattern tr)
                    = probe_record d files (listing_calls tr pattern) (length files) @ [Close]
                \<and> length services = length files
                \<and> (\<forall>i<length files.
                      Name (services ! i) = Base (Path (files ! i))
                      \<and> Running (services ! i)
                          = (fst (SystemCtl_IsServiceRunning d (Base (Path (files ! i)))
                                    (probe_record d files (listing_calls tr pattern) i))
                               = (True, None))
                      \<and> (snd (fst (SystemCtl_IsServiceRunning d (Base (Path (files ! i)))
                                    (probe_record d files (listing_calls tr pattern) i))) \<noteq> None
                           \<longrightarrow> \<not> Running (services ! i)))"
      using r t len each by blast
    then show ?thesis by (simp only: None Inr option.case sum.case)
  qed
qed

theorem listing_tolerates_probe_failures_witness:
  "\<exists>services. fst (SystemCtl_ListServices busy_daemon [] []) = (services, None)
     \<and> length services = 2
     \<and> \<not> Running (services ! 0) \<and> \<not> Running (services ! 1)"
proof -
  let ?at = "probe_record busy_daemon example_units (listing_calls [] [])"
  have c: "NewSystemdConnectionContext busy_daemon [] = None"
    by (simp add: busy_daemon_def)
  have l: "listing_call busy_daemon [] ([] @ [Connect]) = Inr example_units"
    by (simp add: listing_call_def busy_daemon_def example_daemon_def)
  have n: "length example_units = 2"
    by (simp add: example_units_def)
  have p0: "snd (fst (SystemCtl_IsServiceRunning busy_daemon (Base (Path (example_units ! 0)))
                   (?at 0))) \<noteq> None"
    by code_simp
  have p1: "snd (fst (SystemCtl_IsServiceRunning busy_daemon (Base (Path (example_units ! 1)))
                   (?at 1))) \<noteq> None"
    by code_simp
  from listing_tolerates_probe_failures [of busy_daemon "[]" "[]"]
  obtain services where s: "fst (SystemCtl_ListServices busy_daemon [] []) = (services, None)"
    and len: "length services = length example_units"
    and each: "\<forall>i<length example_units.
         Name (services ! i) = Base (Path (example_units ! i))
         \<and> Running (services ! i)
             = (fst (SystemCtl_IsServiceRunning busy_daemon (Base (Path (example_units ! i)))
                       (?at i)) = (True, None))
         \<and> (snd (fst (SystemCtl_IsServiceRunning busy_daemon (Base (Path (example_units ! i)))
                       (?at i))) \<noteq> None
              \<longrightarrow> \<not> Running (services ! i))"
    unfolding c l option.case sum.case by blast
  have i0: "0 < length example_units" and i1: "1 < length example_units"
    using n by simp_all
  from each [rule_format, OF i0] p0 have "\<not> Running (services ! 0)" by blast
  moreover from each [rule_format, OF i1] p1 have "\<not> Running (services ! 1)" by blast
  moreover from len n have "length services = 2" by simp
  ultimately show ?thesis using s by blast
qed

section \<open>Properties of the command-based backend\<close>

subsection \<open>The suffix and the command line\<close>

lemma CutSuffix_append: "CutSuffix (name @ suffix) suffix = (name, True)"
  by (simp add: CutSuffix_def HasSuffix_def)

lemma CutSuffix_without: "\<not> HasSuffix name suffix \<Longrightarrow> CutSuffix name suffix = (name, False)"
  by (simp add: CutSuffix_def)

lemma RcService_suffix:
  assumes "\<not> HasSuffix name ''.service''"
  shows "RcService h (name @ ''.service'') command hist = RcService h name command hist"
proof -
  have "fst (CutSuffix (name @ ''.service'') ''.service'') = fst (CutSuffix name ''.service'')"
    using assms by (simp add: CutSuffix_append CutSuffix_without)
  then show ?thesis
    unfolding RcService_def by (simp only:)
qed

lemma cmd_distinct:
  "cmdStart \<noteq> cmdList" "cmdStop \<noteq> cmdList" "cmdStatus \<noteq> cmdList"
  "cmdStop \<noteq> cmdStart" "cmdStatus \<noteq> cmdStart" "cmdStatus \<noteq> cmdStop"
  by (simp_all add: cmdStatus_def cmdList_def cmdStart_def cmdStop_def)

lemma RcService_command:
  assumes "command = cmdStart \<or> command = cmdStop \<or> command = cmdStatus"
  shows "RcService h name command hist =
     (let args = [''--quiet'', fst (CutSuffix name ''.service''), command];
          (out, err) = cmd_Output h hist ''/sbin/rc-service'' args
      in ((if err \<noteq> None then [] else out, err), hist @ [(''/sbin/rc-service'', args)]))"
proof -
  have a: "RcService h name cmdStart hist =
     (let args = [''--quiet'', fst (CutSuffix name ''.service''), cmdStart];
          (out, err) = cmd_Output h hist ''/sbin/rc-service'' args
      in ((if err \<noteq> None then [] else out, err), hist @ [(''/sbin/rc-service'', args)]))"
    unfolding RcService_def Let_def
    by (simp add: cmd_distinct split: prod.splits) (simp add: cmdStart_def)
  have b: "RcService h name cmdStop hist =
     (let args = [''--quiet'', fst (CutSuffix name ''.service''), cmdStop];
          (out, err) = cmd_Output h hist ''/sbin/rc-service'' args
      in ((if err \<noteq> None then [] else out, err), hist @ [(''/sbin/rc-service'', args)]))"
    unfolding RcService_def Let_def
    by (simp add: cmd_distinct split: prod.splits) (simp add: cmdStop_def)
  have c: "RcService h name cmdStatus hist =
     (let args = [''--quiet'', fst (CutSuffix name ''.service''), cmdStatus];
          (out, err) = cmd_Output h hist ''/sbin/rc-service'' args
      in ((if err \<noteq> None then [] else out, err), hist @ [(''/sbin/rc-service'', args)]))"
    unfolding RcService_def Let_def
    by (simp add: cmd_distinct split: prod.splits) (simp add: cmdStatus_def)
  from assms a b c show ?thesis by blast
qed

lemma RcService_history:
  "command = cmdStart \<or> command = cmdStop \<or> command = cmdStatus \<Longrightarrow>
   snd (RcService h name command hist)
     = hist @ [(''/sbin/rc-service'', [''--quiet'', fst (CutSuffix name ''.service''), command])]"
  by (simp add: RcService_command Let_def split: prod.splits)

subsection \<open>The status probe\<close>

text \<open>
  Claim C8. \<^verbatim>\<open>IsServiceRunning\<close> of the command-based backend runs
  \<^verbatim>\<open>/sbin/rc-service --quiet NAME status\<close> and returns \<^verbatim>\<open>(true, nil)\<close> when the command ends
  with no error (exit status zero), \<^verbatim>\<open>(false, nil)\<close> when it ends with an exit error (it ran
  and exited non-zero), and \<^verbatim>\<open>false\<close> with the error itself for any other error.
\<close>

theorem status_by_exit:
  "cmd_Output h hist ''/sbin/rc-service''
       [''--quiet'', fst (CutSuffix name ''.service''), ''status''] = (out, err) \<Longrightarrow>
   fst (OpenRc_IsServiceRunning h name hist) =
     (case err of
        None \<Rightarrow> (True, None)
      | Some (ExitError code) \<Rightarrow> (False, None)
      | Some e \<Rightarrow> (False, Some e))"
  by (simp add: OpenRc_IsServiceRunning_def RcServiceStatus_def RcService_command Let_def
      cmdStatus_def split: option.splits error.splits)

theorem status_by_exit_witness:
  "fst (OpenRc_IsServiceRunning (example_host [] (Some (ExitError 3))) ''cron'' []) = (False, None)
   \<and> fst (OpenRc_IsServiceRunning (example_host [] None) ''cron'' []) = (True, None)
   \<and> fst (OpenRc_IsServiceRunning (example_host [] (Some (ExecError ''not found''))) ''cron'' [])
       = (False, Some (ExecError ''not found''))"
  using status_by_exit [of "example_host [] (Some (ExitError 3))" "[]" "''cron''" "[]"
      "Some (ExitError 3)"]
    status_by_exit [of "example_host [] None" "[]" "''cron''" "[]" "None"]
    status_by_exit [of "example_host [] (Some (ExecError ''not found''))" "[]" "''cron''" "[]"
      "Some (ExecError ''not found'')"]
  by (simp add: example_host_def)

subsection \<open>Name normalization for start and stop\<close>

text \<open>
  Claim C9 as stated fails: exactly one \<open>.service\<close> is cut, so a name that ends in
  \<open>.service.service\<close> and that name with one suffix stripped run different commands.
\<close>

theorem start_suffix_counterexample:
  "snd (OpenRc_StartService (example_host [] None) ''a.service.service'' [])
     = [(''/sbin/rc-service'', [''--quiet'', ''a.service'', ''start''])]
   \<and> snd (OpenRc_StartService (example_host [] None) ''a.service'' [])
     = [(''/sbin/rc-service'', [''--quiet'', ''a'', ''start''])]"
  by (simp add: OpenRc_StartService_def RcServiceStart_def RcService_def CutSuffix_def
      HasSuffix_def cmdStart_def cmdList_def example_host_def Let_def)

text \<open>
  Claim C9, amended. \<^verbatim>\<open>StartService\<close> and \<^verbatim>\<open>StopService\<close> called with \<open>name\<close> followed by
  \<open>.service\<close> run \<^verbatim>\<open>/sbin/rc-service --quiet name start\<close> (\<^verbatim>\<open>stop\<close>): one suffix is cut. When
  \<open>name\<close> does not itself end in \<open>.service\<close>, the call behaves as the call with \<open>name\<close>: same
  command, same arguments, same result.
\<close>

theorem start_stop_suffix:
  "snd (OpenRc_StartService h (name @ ''.service'') hist)
     = hist @ [(''/sbin/rc-service'', [''--quiet'', name, ''start''])]
   \<and> snd (OpenRc_StopService h (name @ ''.service'') hist)
     = hist @ [(''/sbin/rc-service'', [''--quiet'', name, ''stop''])]
   \<and> (\<not> HasSuffix name ''.service'' \<longrightarrow>
        OpenRc_StartService h (name @ ''.service'') hist = OpenRc_StartService h name hist
        \<and> OpenRc_StopService h (name @ ''.service'') hist = OpenRc_StopService h name hist)"
proof (intro conjI impI)
  have "snd (OpenRc_StartService h (name @ ''.service'') hist)
          = snd (RcService h (name @ ''.service'') cmdStart hist)"
    by (simp add: OpenRc_StartService_def RcServiceStart_def Let_def split: prod.splits)
  then show "snd (OpenRc_StartService h (name @ ''.service'') hist)
     = hist @ [(''/sbin/rc-service'', [''--quiet'', name, ''start''])]"
    by (simp add: RcService_history CutSuffix_append) (simp add: cmdStart_def)
  have "snd (OpenRc_StopService h (name @ ''.service'') hist)
          = snd (RcService h (name @ ''.service'') cmdStop hist)"
    by (simp add: OpenRc_StopService_def RcServiceStop_def Let_def split: prod.splits)
  then show "snd (OpenRc_StopService h (name @ ''.service'') hist)
     = hist @ [(''/sbin/rc-service'', [''--quiet'', name, ''stop''])]"
    by (simp add: RcService_history CutSuffix_append) (simp add: cmdStop_def)
next
  assume "\<not> HasSuffix name ''.service''"
  then show "OpenRc_StartService h (name @ ''.service'') hist = OpenRc_StartService h name hist"
    and "OpenRc_StopService h (name @ ''.service'') hist = OpenRc_StopService h name hist"
    by (simp_all add: OpenRc_StartService_def OpenRc_StopService_def RcServiceStart_def
        RcServiceStop_def RcService_suffix)
qed

theorem start_stop_suffix_witness:
  "\<not> HasSuffix ''sshd'' ''.service''
   \<and> OpenRc_StartService (example_host [] None) (''sshd'' @ ''.service'') []
       = OpenRc_StartService (example_host [] None) ''sshd'' []
   \<and> OpenRc_StopService (example_host [] None) (''sshd'' @ ''.service'') []
       = OpenRc_StopService (example_host [] None) ''sshd'' []"
proof -
  have h: "\<not> HasSuffix ''sshd'' ''.service''" by (simp add: HasSuffix_def)
  from start_stop_suffix [of "example_host [] None" "''sshd''" "[]"] h show ?thesis
    by blast
qed

subsection \<open>Name normalization for the status probe\<close>

text \<open>
  Claim C10 as stated fails for the same reason: the probe of a name that ends in
  \<open>.service.service\<close> and the probe of that name with one suffix stripped run different
  commands.
\<close>

theorem status_suffix_counterexample:
  "snd (OpenRc_IsServiceRunning (example_host [] None) ''a.service.service'' [])
     = [(''/sbin/rc-service'', [''--quiet'', ''a.service'', ''status''])]
   \<and> snd (OpenRc_IsServiceRunning (example_host [] None) ''a.service'' [])
     = [(''/sbin/rc-service'', [''--quiet'', ''a'', ''status''])]"
  by (simp add: OpenRc_IsServiceRunning_def RcServiceStatus_def RcService_def CutSuffix_def
      HasSuffix_def cmdStatus_def cmdStart_def cmdStop_def cmdList_def example_host_def Let_def)

text \<open>
  Claim C10, amended. \<^verbatim>\<open>IsServiceRunning\<close> called with \<open>name\<close> followed by \<open>.service\<close> runs
  \<^verbatim>\<open>/sbin/rc-service --quiet name status\<close>: the shared command builder cuts one suffix for
  the probe as it does for start and stop. When \<open>name\<close> does not itself end in \<open>.service\<close>,
  the probe behaves as the probe with \<open>name\<close>.
\<close>

theorem status_suffix:
  "snd (OpenRc_IsServiceRunning h (name @ ''.service'') hist)
     = hist @ [(''/sbin/rc-service'', [''--quiet'', name, ''status''])]
   \<and> (\<not> HasSuffix name ''.service'' \<longrightarrow>
        OpenRc_IsServiceRunning h (name @ ''.service'') hist = OpenRc_IsServiceRunning h name hist)"
proof (intro conjI impI)
  have "snd (OpenRc_IsServiceRunning h (name @ ''.service'') hist)
          = snd (RcService h (name @ ''.service'') cmdStatus hist)"
    by (simp add: OpenRc_IsServiceRunning_def RcServiceStatus_def Let_def
        split: prod.splits option.splits error.splits)
  then show "snd (OpenRc_IsServiceRunning h (name @ ''.service'') hist)
     = hist @ [(''/sbin/rc-service'', [''--quiet'', name, ''status''])]"
    by (simp add: RcService_history CutSuffix_append) (simp add: cmdStatus_def)
next
  assume "\<not> HasSuffix name ''.service''"
  then show "OpenRc_IsServiceRunning h (name @ ''.service'') hist
               = OpenRc_IsServiceRunning h name hist"
    by (simp add: OpenRc_IsServiceRunning_def RcServiceStatus_def RcService_suffix)
qed

theorem status_suffix_witness:
  "\<not> HasSuffix ''cron'' ''.service''
   \<and> OpenRc_IsServiceRunning (example_host [] (Some (ExitError 3))) (''cron'' @ ''.service'') []
       = OpenRc_IsServiceRunning (example_host [] (Some (ExitError 3))) ''cron'' []"
proof -
  have h: "\<not> HasSuffix ''cron'' ''.service''" by (simp add: HasSuffix_def)
  from status_suffix [of "example_host [] (Some (ExitError 3))" "''cron''" "[]"] h show ?thesis
    by blast
qed

subsection \<open>The raw service names\<close>

lemma fmtInteger_not_empty: "fmtInteger n \<noteq> []"
  by (subst fmtInteger.simps) simp

lemma snoc_subset: "x \<in> set D \<Longrightarrow> set xs \<subseteq> set D \<Longrightarrow> set (xs @ [x]) \<subseteq> set D"
  by simp

lemma fmtInteger_digits: "set (fmtInteger n) \<subseteq> set ''0123456789''"
proof (induction n rule: fmtInteger.induct)
  case (1 n)
  show ?case
  proof (cases "n < 10")
    case True
    have "''0123456789'' ! n \<in> set ''0123456789''"
      using True by (intro nth_mem) simp
    then have "set ([] @ [''0123456789'' ! n]) \<subseteq> set ''0123456789''"
      by (rule snoc_subset) simp
    moreover have "fmtInteger n = [] @ [''0123456789'' ! n]"
      using True by (subst fmtInteger.simps) simp
    ultimately show ?thesis by (simp only:)
  next
    case False
    have "''0123456789'' ! (n mod 10) \<in> set ''0123456789''"
      by (intro nth_mem) simp
    then have "set (fmtInteger (n div 10) @ [''0123456789'' ! (n mod 10)]) \<subseteq> set ''0123456789''"
      using 1 [OF False] by (rule snoc_subset)
    moreover have "fmtInteger n = fmtInteger (n div 10) @ [''0123456789'' ! (n mod 10)]"
      using False by (subst fmtInteger.simps) simp
    ultimately show ?thesis by (simp only:)
  qed
qed

lemma fmtInteger_no_newline: "CHR 0x0A \<notin> set (fmtInteger n)"
proof
  assume "CHR 0x0A \<in> set (fmtInteger n)"
  with fmtInteger_digits [of n] have "CHR 0x0A \<in> set ''0123456789''" by (rule subsetD)
  then show False by simp
qed

lemma fmtBytes_loop_no_newline: "CHR 0x0A \<notin> set (fmtBytes_loop first v)"
  by (induction v arbitrary: first) (simp_all add: fmtInteger_no_newline)

lemma Sprint_no_newline: "CHR 0x0A \<notin> set (Sprint v)"
  by (simp add: Sprint_def fmtBytes_loop_no_newline)

lemma fmtBytes_loop_length: "length v \<le> length (fmtBytes_loop first v)"
proof (induction v arbitrary: first)
  case Nil
  then show ?case by simp
next
  case (Cons c v)
  have "1 \<le> length (fmtInteger (of_char c))"
    using fmtInteger_not_empty [of "of_char c"] by (cases "fmtInteger (of_char c :: nat)") auto
  with Cons [of False] show ?case by simp
qed

lemma Sprint_longer: "length v < length (Sprint v)"
  using fmtBytes_loop_length [of v True] by (simp add: Sprint_def)

lemma Split_not_empty: "Split s sep \<noteq> []"
  by (induction s) (auto split: list.splits)

lemma Split_without_separator: "sep \<notin> set s \<Longrightarrow> Split s sep = [s]"
  by (induction s) (auto split: list.splits)

lemma Split_single: "Split s sep = [t] \<Longrightarrow> t = s"
proof (induction s arbitrary: t)
  case Nil
  then show ?case by simp
next
  case (Cons c s)
  show ?case
  proof (cases "c = sep")
    case True
    with Cons.prems Split_not_empty [of s sep] show ?thesis by simp
  next
    case False
    with Cons.prems Split_not_empty [of s sep]
    obtain piece where "Split s sep = [piece]" and "t = c # piece"
      by (auto split: list.splits)
    with Cons.IH show ?thesis by simp
  qed
qed

lemma RcService_list:
  "RcService h name cmdList hist =
     (let (out, err) = cmd_Output h hist ''/sbin/rc-service'' [''--list'']
      in ((if err \<noteq> None then [] else out, err), hist @ [(''/sbin/rc-service'', [''--list''])]))"
  unfolding RcService_def Let_def
  by (simp add: cmd_distinct [symmetric] split: prod.splits)

text \<open>
  Whatever the list command prints, \<^verbatim>\<open>RcServiceList\<close> returns one name, the bracketed
  decimal rendering of the output bytes, and that is never the list of the output's lines.
\<close>

lemma list_names_are_not_lines:
  "cmd_Output h hist ''/sbin/rc-service'' [''--list''] = (out, None) \<Longrightarrow>
     fst (RcServiceList h hist) = ([Sprint out], None)
     \<and> fst (fst (RcServiceList h hist)) \<noteq> Split out (CHR 0x0A)"
proof -
  assume a: "cmd_Output h hist ''/sbin/rc-service'' [''--list''] = (out, None)"
  then have r: "fst (RcServiceList h hist) = ([Sprint out], None)"
    by (simp add: RcServiceList_def RcService_list Split_without_separator Sprint_no_newline)
  have "[Sprint out] \<noteq> Split out (CHR 0x0A)"
  proof
    assume "[Sprint out] = Split out (CHR 0x0A)"
    then have "Sprint out = out" by (metis Split_single)
    with Sprint_longer [of out] show False by simp
  qed
  with r show ?thesis by simp
qed

text \<open>
  Claim C2 fails on the code. When \<^verbatim>\<open>rc-service --list\<close> prints the two lines \<open>sshd\<close> and
  \<open>cron\<close>, \<^verbatim>\<open>RcServiceList\<close> returns the single name
  \<^verbatim>\<open>[115 115 104 100 10 99 114 111 110 10]\<close>, whereas splitting the output at its newlines
  gives \<open>sshd\<close>, \<open>cron\<close> and the empty string after the last newline.
\<close>

theorem list_names_example:
  "cmd_Output (example_host example_listing None) [] ''/sbin/rc-service'' [''--list'']
     = (''sshd'' @ [CHR 0x0A] @ ''cron'' @ [CHR 0x0A], None)
   \<and> fst (RcServiceList (example_host example_listing None) [])
     = ([''[115 115 104 100 10 99 114 111 110 10]''], None)
   \<and> Split (''sshd'' @ [CHR 0x0A] @ ''cron'' @ [CHR 0x0A]) (CHR 0x0A) = [''sshd'', ''cron'', []]"
  by code_simp

section \<open>Listing by pattern, in both backends\<close>

subsection \<open>The filtering loop of the command-based backend\<close>

text \<open>
  Started anywhere with \<open>n \<le> i\<close>, the loop keeps the first \<open>n\<close> names and, of the names from
  \<open>i\<close> on, those that match; it fails with the first error of \<^verbatim>\<open>filepath.Match\<close> when there
  is one. Since \<open>n \<le> i\<close>, every write is at an index no greater than the one just read: it is
  in range, and it touches no name that is still to be read.
\<close>

lemma filter_loop:
  "n \<le> i \<Longrightarrow> i \<le> length svc_list \<Longrightarrow>
   OpenRc_ListServices_filter Match pattern svc_list i n =
     (if \<forall>s \<in> set (drop i svc_list). snd (Match pattern s) = None
      then (take n svc_list @ filter (\<lambda>s. fst (Match pattern s)) (drop i svc_list), None)
      else ([], snd (Match pattern (hd (filter (\<lambda>s. snd (Match pattern s) \<noteq> None) (drop i svc_list))))))"
proof (induction Match pattern svc_list i n rule: OpenRc_ListServices_filter.induct)
  case (1 Match pattern svc_list i n)
  show ?case
  proof (cases "i < length svc_list")
    case False
    then show ?thesis using "1.prems"
      by (simp add: OpenRc_ListServices_filter.simps)
  next
    case True
    obtain matched err where m: "Match pattern (svc_list ! i) = (matched, err)"
      by (metis prod.exhaust)
    have d: "drop i svc_list = svc_list ! i # drop (Suc i) svc_list"
      using True by (simp add: Cons_nth_drop_Suc)
    show ?thesis
    proof (cases err)
      case (Some e)
      then show ?thesis using True m d
        by (simp add: OpenRc_ListServices_filter.simps)
    next
      case None
      then have e: "\<not> err \<noteq> None" by simp
      show ?thesis
      proof (cases matched)
        case True': True
        have upd_drop: "drop (Suc i) (svc_list[n := svc_list ! i]) = drop (Suc i) svc_list"
          using "1.prems" by simp
        have upd_take: "take (Suc n) (svc_list[n := svc_list ! i]) = take n svc_list @ [svc_list ! i]"
          using "1.prems" True by (simp add: take_Suc_conv_app_nth)
        have ih: "OpenRc_ListServices_filter Match pattern (svc_list[n := svc_list ! i]) (Suc i) (Suc n) =
          (if \<forall>s \<in> set (drop (Suc i) svc_list). snd (Match pattern s) = None
           then (take n svc_list @ [svc_list ! i] @ filter (\<lambda>s. fst (Match pattern s)) (drop (Suc i) svc_list), None)
           else ([], snd (Match pattern (hd (filter (\<lambda>s. snd (Match pattern s) \<noteq> None) (drop (Suc i) svc_list))))))"
          using "1.IH"(1) [OF True refl refl m [symmetric] e True'] "1.prems" True upd_drop upd_take
          by simp
        have "OpenRc_ListServices_filter Match pattern svc_list i n
                = OpenRc_ListServices_filter Match pattern (svc_list[n := svc_list ! i]) (Suc i) (Suc n)"
          using True m None True' by (simp add: OpenRc_ListServices_filter.simps [of _ _ svc_list i n])
        then show ?thesis unfolding ih using d m None True' by simp
      next
        case False
        have ih: "OpenRc_ListServices_filter Match pattern svc_list (Suc i) n =
          (if \<forall>s \<in> set (drop (Suc i) svc_list). snd (Match pattern s) = None
           then (take n svc_list @ filter (\<lambda>s. fst (Match pattern s)) (drop (Suc i) svc_list), None)
           else ([], snd (Match pattern (hd (filter (\<lambda>s. snd (Match pattern s) \<noteq> None) (drop (Suc i) svc_list))))))"
          using "1.IH"(2) [OF True refl refl m [symmetric] e False] "1.prems" True
          by simp
        have "OpenRc_ListServices_filter Match pattern svc_list i n
                = OpenRc_ListServices_filter Match pattern svc_list (Suc i) n"
          using True m None False by (simp add: OpenRc_ListServices_filter.simps [of _ _ svc_list i n])
        then show ?thesis unfolding ih using d m None False by simp
      qed
    qed
  qed
qed

lemma filter_from_start:
  "OpenRc_ListServices_filter Match pattern svc_list 0 0 = (kept, None) \<Longrightarrow>
     kept = filter (\<lambda>name. Match pattern name = (True, None)) svc_list"
proof -
  assume a: "OpenRc_ListServices_filter Match pattern svc_list 0 0 = (kept, None)"
  have all: "\<forall>s \<in> set svc_list. snd (Match pattern s) = None"
  proof (rule ccontr)
    assume n: "\<not> (\<forall>s \<in> set svc_list. snd (Match pattern s) = None)"
    let ?bad = "filter (\<lambda>s. snd (Match pattern s) \<noteq> None) svc_list"
    from n have "?bad \<noteq> []" by (simp add: filter_empty_conv)
    then have "hd ?bad \<in> set ?bad" by (rule hd_in_set)
    then have "snd (Match pattern (hd ?bad)) \<noteq> None"
      unfolding set_filter by (rule CollectE) (rule conjunct2)
    moreover from n a have "snd (Match pattern (hd ?bad)) = None"
      using filter_loop [of 0 0 svc_list Match pattern] by (simp split: if_splits)
    ultimately show False by simp
  qed
  then have "kept = filter (\<lambda>s. fst (Match pattern s)) svc_list"
    using a filter_loop [of 0 0 svc_list Match pattern] by simp
  also have "\<dots> = filter (\<lambda>name. Match pattern name = (True, None)) svc_list"
    using all by (intro filter_cong refl) (auto simp: prod_eq_iff)
  finally show ?thesis .
qed

lemma probe_names:
  "OpenRc_ListServices_probe h names services hist = ((out, None), hist') \<Longrightarrow>
     map Name out = map Name services @ names"
proof (induction names arbitrary: services hist)
  case Nil
  then show ?case by simp
next
  case (Cons svc_name names)
  obtain running err hist1 where p:
    "OpenRc_IsServiceRunning h svc_name hist = ((running, err), hist1)"
    by (metis prod.exhaust)
  show ?case
  proof (cases err)
    case (Some e)
    with Cons.prems p show ?thesis by simp
  next
    case None
    with Cons.prems p have
      "OpenRc_ListServices_probe h names (services @ [\<lparr>Name = svc_name, Running = running\<rparr>]) hist1
         = ((out, None), hist')"
      by simp
    from Cons.IH [OF this] show ?thesis by simp
  qed
qed

subsection \<open>The names listed by the D-Bus backend\<close>

text \<open>
  The D-Bus backend hands a pattern other than the empty one and \<open>*\<close> to the daemon
  unchanged, and names every unit file the daemon answers with: which names match is the
  daemon's decision.
\<close>

lemma ListServices_loop_names:
  "map Name (fst (SystemCtl_ListServices_loop d files services tr))
     = map Name services @ map (\<lambda>f. Base (Path f)) files"
  by (induction files arbitrary: services tr) (auto simp: Let_def split: prod.splits)

lemma SystemCtl_ListServices_names:
  "NewSystemdConnectionContext d tr = None \<Longrightarrow>
   listing_call d pattern (tr @ [Connect]) = Inr files \<Longrightarrow>
   map Name (fst (fst (SystemCtl_ListServices d pattern tr))) = map (\<lambda>f. Base (Path f)) files"
  by (simp add: ListServices_eq ListServices_loop_names)

subsection \<open>The names listed by the command-based backend\<close>

text \<open>
  The raw names are always the one rendering of the output bytes, so a listing that succeeds
  has at most one descriptor, named by that rendering, and its names are never the lines
  the list command printed.
\<close>

lemma RcServiceList_one_name:
  "cmd_Output h hist ''/sbin/rc-service'' [''--list''] = (out, None) \<Longrightarrow>
     RcServiceList h hist = (([Sprint out], None), hist @ [(''/sbin/rc-service'', [''--list''])])"
  by (simp add: RcServiceList_def RcService_list Split_without_separator Sprint_no_newline)

lemma listing_names_from_rendering:
  assumes out: "cmd_Output h hist ''/sbin/rc-service'' [''--list''] = (out, None)"
    and ok: "OpenRc_ListServices Match h pattern hist = ((services, None), hist2)"
  shows "map Name services =
           (if pattern = [] \<or> pattern = ''*'' then [Sprint out]
            else filter (\<lambda>name. Match pattern name = (True, None)) [Sprint out])"
    and "length services \<le> 1"
    and "map Name services \<noteq> Split out (CHR 0x0A)"
proof -
  let ?hist1 = "hist @ [(''/sbin/rc-service'', [''--list''])]"
  note raw = RcServiceList_one_name [OF out]
  show names: "map Name services =
           (if pattern = [] \<or> pattern = ''*'' then [Sprint out]
            else filter (\<lambda>name. Match pattern name = (True, None)) [Sprint out])"
  proof (cases "pattern = [] \<or> pattern = ''*''")
    case True
    with ok raw have "OpenRc_ListServices_probe h [Sprint out] [] ?hist1 = ((services, None), hist2)"
      by (auto simp add: OpenRc_ListServices_def)
    from probe_names [OF this] True show ?thesis by simp
  next
    case False
    obtain kept err where f:
      "OpenRc_ListServices_filter Match pattern [Sprint out] 0 0 = (kept, err)"
      by (metis prod.exhaust)
    from ok raw False f have e: "err = None"
      by (cases err) (auto simp add: OpenRc_ListServices_def)
    with ok raw False f have "OpenRc_ListServices_probe h kept [] ?hist1 = ((services, None), hist2)"
      by (auto simp add: OpenRc_ListServices_def)
    from probe_names [OF this] have "map Name services = kept" by simp
    with filter_from_start [OF f [unfolded e]] False show ?thesis by simp
  qed
  have "length (map Name services) \<le> 1"
    unfolding names by simp
  then show "length services \<le> 1" by simp
  show "map Name services \<noteq> Split out (CHR 0x0A)"
  proof
    assume eq: "map Name services = Split out (CHR 0x0A)"
    have "map Name services = [Sprint out]"
    proof (rule ccontr)
      assume "map Name services \<noteq> [Sprint out]"
      with names have "map Name services = []" by (auto split: if_splits)
      with eq Split_not_empty [of out "CHR 0x0A"] show False by simp
    qed
    with eq have "Split out (CHR 0x0A) = [Sprint out]" by simp
    then have "Sprint out = out" by (rule Split_single)
    with Sprint_longer [of out] show False by simp
  qed
qed

text \<open>
  Claim C6 fails on the code, in the command-based backend. When \<^verbatim>\<open>rc-service --list\<close>
  prints the two lines \<open>sshd\<close> and \<open>cron\<close>, the listing for the empty pattern and for \<open>*\<close> has
  one descriptor, named \<^verbatim>\<open>[115 115 104 100 10 99 114 111 110 10]\<close>, and none for \<open>sshd\<close> or
  \<open>cron\<close>; the listing for the pattern \<open>sshd\<close>, which matches the name \<open>sshd\<close>, is empty.
\<close>

theorem listing_example:
  "Split example_listing (CHR 0x0A) = [''sshd'', ''cron'', []]
   \<and> fst (OpenRc_ListServices example_Match (example_host example_listing None) [] [])
     = ([\<lparr>Name = ''[115 115 104 100 10 99 114 111 110 10]'', Running = True\<rparr>], None)
   \<and> fst (OpenRc_ListServices example_Match (example_host example_listing None) ''*'' [])
     = ([\<lparr>Name = ''[115 115 104 100 10 99 114 111 110 10]'', Running = True\<rparr>], None)
   \<and> example_Match ''sshd'' ''sshd'' = (True, None)
   \<and> fst (OpenRc_ListServices example_Match (example_host example_listing None) ''sshd'' [])
     = ([], None)"
  by code_simp

section \<open>Properties of the backend selector\<close>

text \<open>
  Claim C3 as stated fails: when \<^verbatim>\<open>os.Stat\<close> fails with an error other than "does not
  exist" (here: permission denied), the selector returns the D-Bus backend.
\<close>

theorem selector_counterexample:
  "stat_permission_denied ''/run/systemd/system/'' \<noteq> None
   \<and> NewInitManager stat_permission_denied = SystemCtl"
  by (simp add: NewInitManager_def IsNotExist_def stat_permission_denied_def ENOENT_def
      EACCES_def)

text \<open>
  Claim C3, amended. The selector always returns a backend. It returns the command-based
  backend exactly when the probe of \<^verbatim>\<open>/run/systemd/system/\<close> reports that the path does not
  exist; when the path is present, and when the probe fails with any other error, it
  returns the D-Bus backend.
\<close>

theorem selector_by_not_exist:
  "(NewInitManager Stat = OpenRc) = IsNotExist (Stat ''/run/systemd/system/'')
   \<and> (NewInitManager Stat = SystemCtl) = (\<not> IsNotExist (Stat ''/run/systemd/system/''))
   \<and> (Stat ''/run/systemd/system/'' = None \<longrightarrow> NewInitManager Stat = SystemCtl)
   \<and> (Stat ''/run/systemd/system/'' = Some (PathError errno) \<and> errno \<noteq> ENOENT
        \<longrightarrow> NewInitManager Stat = SystemCtl)"
  by (simp add: NewInitManager_def IsNotExist_def)

theorem selector_by_not_exist_witness:
  "NewInitManager stat_not_exist = OpenRc
   \<and> NewInitManager (\<lambda>path. None) = SystemCtl
   \<and> NewInitManager stat_permission_denied = SystemCtl"
  using selector_by_not_exist [of stat_not_exist]
    selector_by_not_exist [of "\<lambda>path. None"]
    selector_by_not_exist [of stat_permission_denied EACCES]
  by (simp add: stat_not_exist_def stat_permission_denied_def IsNotExist_def ENOENT_def EACCES_def)

end
